theory Spec2Isabelle
  imports Complex_Main
begin

section \<open>The feature-announcement popup (src/components/NewFeaturePopup/index.tsx)\<close>

text \<open>
  The component keeps two React state cells (\<open>isVisible\<close>, \<open>isAnimating\<close>), reads and
  writes two entries of the browser's \<open>localStorage\<close>, and defers its state updates with
  \<open>setTimeout\<close>. The embedding makes all of this explicit: a \<open>world\<close> record carries the
  clock, the storage, the two state cells, the queue of pending timers and the router's
  history; the effect and the three click handlers are functions on that record.
\<close>

subsection \<open>JavaScript values the component computes with\<close>

text \<open>
  A JavaScript number is modelled as an exact rational or \<open>NaN\<close>; infinities and the
  rounding of doubles are left out. The model therefore computes what the code computes
  where the doubles are exact: on integers below 2^53 in magnitude (the time stamps of
  \<open>Date\<close> reach 8.64e15 at most), and on the comparison of line 51 when \<open>showDays\<close> is a
  whole number of days. There the rounded quotient of line 49 lies on the same side of
  \<open>showDays\<close> as the exact one: an integer number of milliseconds below \<open>showDays\<close> days
  is at least 1/86400000 of a day below, more than half the gap between neighbouring
  doubles of that size. The properties that depend on the comparison are stated for
  whole days. A string is a list of 8-bit
  characters, which covers the keys and the decimal time stamps the component writes.
\<close>

datatype jsnum = NaN | Num rat

text \<open>\<open>a < b\<close> on numbers: false as soon as one side is \<open>NaN\<close>.\<close>

fun js_lt :: "jsnum \<Rightarrow> jsnum \<Rightarrow> bool" where
  "js_lt (Num a) (Num b) = (a < b)"
| "js_lt _ _ = False"

text \<open>
  Line 49: \<open>(now - parseInt(lastShown)) / (1000 * 60 * 60 * 24)\<close>, with \<open>now\<close> the integer
  returned by \<open>new Date().getTime()\<close>. \<open>NaN\<close> propagates through \<open>-\<close> and \<open>/\<close>. The
  quotient is the exact one, not the double nearest to it.
\<close>

definition msPerDay :: rat where
  "msPerDay = 1000 * 60 * 60 * 24"

fun daysSince :: "int \<Rightarrow> jsnum \<Rightarrow> jsnum" where
  "daysSince now NaN = NaN"
| "daysSince now (Num l) = Num ((of_int now - l) / msPerDay)"

text \<open>
  Truthiness of what \<open>localStorage.getItem\<close> returns: \<open>null\<close> (here \<open>None\<close>) and the
  empty string are falsy, every other string is truthy.
\<close>

fun truthy :: "string option \<Rightarrow> bool" where
  "truthy None = False"
| "truthy (Some s) = (s \<noteq> [])"

text \<open>\<open>ToString\<close> of a string-or-null value, applied by \<open>parseInt\<close> to its argument.\<close>

fun js_ToString :: "string option \<Rightarrow> string" where
  "js_ToString None = ''null''"
| "js_ToString (Some s) = s"

subsection \<open>\<open>Number.prototype.toString\<close> on integers\<close>

definition digitChar :: "nat \<Rightarrow> char" where
  "digitChar d = ''0123456789'' ! d"

fun natToString :: "nat \<Rightarrow> string" where
  "natToString n = (if n < 10 then [digitChar n] else natToString (n div 10) @ [digitChar (n mod 10)])"

declare natToString.simps [simp del]

text \<open>
  \<open>now.toString()\<close> (line 47). Time values lie within 8.64e15 of zero, where JavaScript
  prints an integer in plain decimal notation.
\<close>

definition toString :: "int \<Rightarrow> string" where
  "toString i = (if i < 0 then CHR ''-'' # natToString (nat (- i)) else natToString (nat i))"

subsection \<open>\<open>parseInt\<close> with no radix argument\<close>

text \<open>
  White space and line terminators among the code units below 256: TAB, LF, VT, FF, CR,
  SP and NBSP.
\<close>

definition isWhiteSpace :: "char \<Rightarrow> bool" where
  "isWhiteSpace c = ((of_char c :: nat) \<in> {9, 10, 11, 12, 13, 32, 160})"

definition digitValue :: "char \<Rightarrow> nat option" where
  "digitValue c =
     (let n = (of_char c :: nat) in
      if 48 \<le> n \<and> n \<le> 57 then Some (n - 48)
      else if 97 \<le> n \<and> n \<le> 122 then Some (n - 87)
      else if 65 \<le> n \<and> n \<le> 90 then Some (n - 55)
      else None)"

definition isRadixDigit :: "nat \<Rightarrow> char \<Rightarrow> bool" where
  "isRadixDigit R c = (case digitValue c of None \<Rightarrow> False | Some d \<Rightarrow> d < R)"

definition mathInt :: "nat \<Rightarrow> string \<Rightarrow> nat" where
  "mathInt R Z = foldl (\<lambda>a c. a * R + (case digitValue c of None \<Rightarrow> 0 | Some d \<Rightarrow> d)) 0 Z"

text \<open>
  The steps of the language definition: strip leading white space; take an optional
  sign; with radix undefined, a prefix \<open>0x\<close> or \<open>0X\<close> selects radix 16, otherwise the
  radix is 10; read the longest prefix of digits; no digit at all gives \<open>NaN\<close>.
\<close>

definition parseInt :: "string \<Rightarrow> jsnum" where
  "parseInt inputString =
     (let S = dropWhile isWhiteSpace inputString;
          sign = (case S of c # _ \<Rightarrow> if c = CHR ''-'' then - 1 else 1 | [] \<Rightarrow> (1 :: rat));
          S1 = (case S of c # cs \<Rightarrow> if c = CHR ''+'' \<or> c = CHR ''-'' then cs else S | [] \<Rightarrow> S);
          hex = (take 2 S1 = ''0x'' \<or> take 2 S1 = ''0X'');
          R = (if hex then 16 else 10);
          S2 = (if hex then drop 2 S1 else S1);
          Z = takeWhile (isRadixDigit R) S2
      in if Z = [] then NaN else Num (sign * of_nat (mathInt R Z)))"

subsection \<open>The browser's local storage\<close>

text \<open>
  \<open>getItem\<close> returns \<open>null\<close> for a missing key. Two ways the browser can refuse: with
  storage disabled every access raises a \<open>SecurityError\<close>; with the quota used up
  \<open>setItem\<close> raises a \<open>QuotaExceededError\<close>.
\<close>

datatype js_error = SecurityError | QuotaExceededError

record storage =
  items :: "string \<rightharpoonup> string"
  denied :: bool
  full :: bool

definition getItem :: "storage \<Rightarrow> string \<Rightarrow> js_error + string option" where
  "getItem s k = (if denied s then Inl SecurityError else Inr (items s k))"

definition setItem :: "storage \<Rightarrow> string \<Rightarrow> string \<Rightarrow> js_error + storage" where
  "setItem s k v =
     (if denied s then Inl SecurityError
      else if full s then Inl QuotaExceededError
      else Inr (s\<lparr>items := (items s)(k \<mapsto> v)\<rparr>))"

text \<open>The two keys, \<open>`popup_${featureId}_lastShown`\<close> and \<open>`popup_${featureId}_dismissed`\<close>.\<close>

definition lastShownKey :: "string \<Rightarrow> string" where
  "lastShownKey featureId = ''popup_'' @ featureId @ ''_lastShown''"

definition dismissedKey :: "string \<Rightarrow> string" where
  "dismissedKey featureId = ''popup_'' @ featureId @ ''_dismissed''"

subsection \<open>Props, component state and timers\<close>

text \<open>\<open>showDays\<close> is optional; the destructuring default is 7 (line 20).\<close>

record props =
  featureId :: string
  title :: string
  description :: string
  linkUrl :: string
  linkText :: string
  showDays :: "jsnum option"

definition showDays_of :: "props \<Rightarrow> jsnum" where
  "showDays_of p = (case showDays p of None \<Rightarrow> Num 7 | Some d \<Rightarrow> d)"

text \<open>
  The three closures the component hands to \<open>setTimeout\<close>:
  \<^item> \<open>ShowPopup\<close>: \<open>() => { setIsVisible(true); setTimeout(() => setIsAnimating(true), 100); }\<close>
  \<^item> \<open>StartAnimation\<close>: \<open>() => setIsAnimating(true)\<close>
  \<^item> \<open>HidePopup\<close>: \<open>() => setIsVisible(false)\<close>
\<close>

datatype callback = ShowPopup | StartAnimation | HidePopup

text \<open>
  \<open>clock\<close> is what \<open>new Date().getTime()\<close> returns; \<open>timers\<close> holds the pending timeouts
  with their due times, in the order they were set; \<open>history\<close> lists the routes pushed
  through the router since the mount; \<open>mounted\<close> tells whether React still holds the
  component.
\<close>

record world =
  clock :: int
  localStorage :: storage
  isVisible :: bool
  isAnimating :: bool
  timers :: "(int \<times> callback) list"
  history :: "string list"
  mounted :: bool

text \<open>A fresh mount: \<open>useState(false)\<close> twice (lines 22-23), nothing pending.\<close>

definition initial :: "int \<Rightarrow> storage \<Rightarrow> world" where
  "initial now s =
     \<lparr>clock = now, localStorage = s, isVisible = False, isAnimating = False,
      timers = [], history = [], mounted = True\<rparr>"

text \<open>React drops a state update addressed to a component it has unmounted.\<close>

definition setIsVisible :: "bool \<Rightarrow> world \<Rightarrow> world" where
  "setIsVisible b w = (if mounted w then w\<lparr>isVisible := b\<rparr> else w)"

definition setIsAnimating :: "bool \<Rightarrow> world \<Rightarrow> world" where
  "setIsAnimating b w = (if mounted w then w\<lparr>isAnimating := b\<rparr> else w)"

definition setTimeout :: "callback \<Rightarrow> int \<Rightarrow> world \<Rightarrow> world" where
  "setTimeout cb delay w = w\<lparr>timers := timers w @ [(clock w + delay, cb)]\<rparr>"

fun run_callback :: "callback \<Rightarrow> world \<Rightarrow> world" where
  "run_callback ShowPopup w = setTimeout StartAnimation 100 (setIsVisible True w)"
| "run_callback StartAnimation w = setIsAnimating True w"
| "run_callback HidePopup w = setIsVisible False w"

text \<open>The pending timer that is due first; among equal due times the one set first.\<close>

fun next_timer :: "(int \<times> callback) list \<Rightarrow> (int \<times> callback) option" where
  "next_timer [] = None"
| "next_timer (x # xs) =
     (case next_timer xs of
        None \<Rightarrow> Some x
      | Some y \<Rightarrow> if fst y < fst x then Some y else Some x)"

text \<open>Time passes until the next timer is due, and its callback runs.\<close>

definition fire_next :: "world \<Rightarrow> world" where
  "fire_next w =
     (case next_timer (timers w) of
        None \<Rightarrow> w
      | Some (t, cb) \<Rightarrow>
          run_callback cb (w\<lparr>clock := max (clock w) t, timers := remove1 (t, cb) (timers w)\<rparr>))"

subsection \<open>The effect and the click handlers\<close>

text \<open>
  What a function body hands back when it returns: \<open>undefined\<close>, or a function. The
  function an effect returns is its clean-up, which React keeps and calls when it
  unmounts the component; it acts on the world like any other code.
\<close>

datatype retval = Undefined | Cleanup "world \<Rightarrow> world"

text \<open>
  A function body either returns a value or throws; either way it leaves a world behind,
  and a throw leaves the world as it was at that point, with the updates made before it.
\<close>

datatype result = Returned retval world | Threw js_error world

text \<open>
  The effect of lines 26-61, run by React after the component has mounted. It contains no
  \<open>try\<close>: an exception of \<open>localStorage\<close> leaves the function. It returns at line 35
  with a bare \<open>return;\<close> and otherwise by reaching the end of its body: the value is
  \<open>undefined\<close> both times.
\<close>

definition useEffect :: "props \<Rightarrow> world \<Rightarrow> result" where
  "useEffect p w =
     (case getItem (localStorage w) (lastShownKey (featureId p)) of
        Inl e \<Rightarrow> Threw e w
      | Inr lastShown \<Rightarrow>
     (case getItem (localStorage w) (dismissedKey (featureId p)) of
        Inl e \<Rightarrow> Threw e w
      | Inr dismissed \<Rightarrow>
          if truthy dismissed then Returned Undefined w
          else
            let now = clock w in
            if \<not> truthy lastShown then
              (let w1 = setTimeout ShowPopup 2000 w in
               case setItem (localStorage w1) (lastShownKey (featureId p)) (toString now) of
                 Inl e \<Rightarrow> Threw e w1
               | Inr s \<Rightarrow> Returned Undefined (w1\<lparr>localStorage := s\<rparr>))
            else
              (let daysSinceLastShown = daysSince now (parseInt (js_ToString lastShown)) in
               if js_lt daysSinceLastShown (showDays_of p)
               then Returned Undefined (setTimeout ShowPopup 2000 w)
               else Returned Undefined w)))"

text \<open>Lines 63-66.\<close>

definition handleClose :: "world \<Rightarrow> world" where
  "handleClose w = setTimeout HidePopup 400 (setIsAnimating False w)"

text \<open>Lines 68-72. The write comes first; if it throws, the two lines after it do not run.\<close>

definition handleDismiss :: "props \<Rightarrow> world \<Rightarrow> result" where
  "handleDismiss p w =
     (case setItem (localStorage w) (dismissedKey (featureId p)) ''true'' of
        Inl e \<Rightarrow> Threw e w
      | Inr s \<Rightarrow> Returned Undefined (setTimeout HidePopup 400 (setIsAnimating False (w\<lparr>localStorage := s\<rparr>))))"

text \<open>Lines 74-78: \<open>history.push(linkUrl)\<close>, then the same two lines.\<close>

definition handleNavigate :: "props \<Rightarrow> world \<Rightarrow> world" where
  "handleNavigate p w =
     setTimeout HidePopup 400 (setIsAnimating False (w\<lparr>history := history w @ [linkUrl p]\<rparr>))"

text \<open>
  Lines 80-82 and the JSX after them: \<open>null\<close> when not visible, otherwise the overlay
  and the popup, whose CSS classes depend on \<open>isAnimating\<close> alone.
\<close>

definition render :: "world \<Rightarrow> bool option" where
  "render w = (if \<not> isVisible w then None else Some (isAnimating w))"

text \<open>
  React unmounting the component: it calls the clean-up the effect returned, if the
  effect returned one, and lets go of the component. Timers are the browser's, not
  React's: unmounting leaves alone whatever the clean-up does not clear.
\<close>

definition unmount :: "retval \<Rightarrow> world \<Rightarrow> world" where
  "unmount rv w = (case rv of Undefined \<Rightarrow> w | Cleanup f \<Rightarrow> f w)\<lparr>mounted := False\<rparr>"

text \<open>What the page displays of the component.\<close>

definition on_screen :: "world \<Rightarrow> bool" where
  "on_screen w = (mounted w \<and> render w \<noteq> None)"

text \<open>
  The world React goes on with after it has run the effect. An effect that throws takes
  the component down: React unmounts the tree around it, and no clean-up was returned.
\<close>

fun after_effect :: "result \<Rightarrow> world" where
  "after_effect (Returned rv w) = w"
| "after_effect (Threw e w) = unmount Undefined w"

text \<open>
  The world after a click handler has run. An exception in an event handler is reported
  and the component stays mounted, as the handler left it.
\<close>

fun after_click :: "result \<Rightarrow> world" where
  "after_click (Returned rv w) = w"
| "after_click (Threw e w) = w"

subsection \<open>Concrete scenarios\<close>

text \<open>
  A popup for feature \<open>x\<close> that leaves \<open>showDays\<close> to its default, and working storage
  holding given entries.
\<close>

definition propsX :: props where
  "propsX =
     \<lparr>featureId = ''x'', title = ''New'', description = ''A new feature'',
      linkUrl = ''/docs/x'', linkText = ''Learn More'', showDays = None\<rparr>"

definition storeOf :: "(string \<times> string) list \<Rightarrow> storage" where
  "storeOf kvs = \<lparr>items = map_of kvs, denied = False, full = False\<rparr>"

section \<open>Properties\<close>

subsection \<open>Printing and reading back a time stamp\<close>

lemma natToString_small: "n < 10 \<Longrightarrow> natToString n = [digitChar n]"
  by (simp add: natToString.simps)

lemma natToString_large:
  "10 \<le> n \<Longrightarrow> natToString n = natToString (n div 10) @ [digitChar (n mod 10)]"
  by (subst natToString.simps) simp

lemma digit_cases: "d < 10 \<Longrightarrow> d \<in> {0, 1, 2, 3, 4, 5, 6, 7, 8, 9::nat}"
  by auto

lemma digitValue_digitChar: "d < 10 \<Longrightarrow> digitValue (digitChar d) = Some d"
  using digit_cases[of d] by (auto simp add: digitValue_def digitChar_def)

lemma isRadixDigit_digitChar: "d < 10 \<Longrightarrow> isRadixDigit 10 (digitChar d)"
  by (simp add: isRadixDigit_def digitValue_digitChar)

lemma decimal_not_space: "isRadixDigit 10 c \<Longrightarrow> \<not> isWhiteSpace c"
  by (auto simp add: isRadixDigit_def digitValue_def isWhiteSpace_def Let_def split: if_splits)

lemma decimal_not_sign: "isRadixDigit 10 c \<Longrightarrow> c \<noteq> CHR ''-'' \<and> c \<noteq> CHR ''+''"
  by (auto simp add: isRadixDigit_def digitValue_def Let_def)

lemma decimal_not_x: "isRadixDigit 10 c \<Longrightarrow> c \<noteq> CHR ''x'' \<and> c \<noteq> CHR ''X''"
  by (auto simp add: isRadixDigit_def digitValue_def Let_def)

lemma natToString_digits: "c \<in> set (natToString n) \<Longrightarrow> isRadixDigit 10 c"
proof (induction n arbitrary: c rule: natToString.induct)
  case (1 n)
  show ?case
  proof (cases "n < 10")
    case True
    with "1.prems" show ?thesis
      by (simp add: natToString_small isRadixDigit_digitChar)
  next
    case False
    with "1.prems" have "c \<in> set (natToString (n div 10)) \<or> c = digitChar (n mod 10)"
      by (auto simp add: natToString_large)
    then show ?thesis
      using "1.IH"[OF False] by (auto simp add: isRadixDigit_digitChar)
  qed
qed

lemma natToString_nonempty: "natToString n \<noteq> []"
  by (subst natToString.simps) simp

lemma mathInt_snoc:
  "mathInt R (Z @ [c]) = mathInt R Z * R + (case digitValue c of None \<Rightarrow> 0 | Some d \<Rightarrow> d)"
  by (simp add: mathInt_def)

lemma mathInt_natToString: "mathInt 10 (natToString n) = n"
proof (induction n rule: natToString.induct)
  case (1 n)
  show ?case
  proof (cases "n < 10")
    case True
    then show ?thesis
      by (simp add: natToString_small mathInt_def digitValue_digitChar)
  next
    case False
    then show ?thesis
      using "1.IH"[OF False]
      by (simp add: natToString_large mathInt_snoc digitValue_digitChar)
  qed
qed

text \<open>
  On a non-empty string of decimal digits \<open>parseInt\<close> skips nothing, finds no sign and no
  hexadecimal prefix, and reads the whole string; with a minus sign in front it negates.
\<close>

lemma parseInt_decimal:
  assumes nonempty: "Z \<noteq> []" and digits: "\<And>c. c \<in> set Z \<Longrightarrow> isRadixDigit 10 c"
  shows "parseInt Z = Num (of_nat (mathInt 10 Z))"
    and "parseInt (CHR ''-'' # Z) = Num (- of_nat (mathInt 10 Z))"
proof -
  obtain c cs where Z: "Z = c # cs"
    using nonempty by (cases Z) auto
  have c: "isRadixDigit 10 c"
    using digits Z by simp
  have nohex: "take 2 Z \<noteq> ''0x'' \<and> take 2 Z \<noteq> ''0X''"
  proof (cases cs)
    case Nil
    then show ?thesis using Z by simp
  next
    case (Cons d ds)
    then have "isRadixDigit 10 d" using digits Z by simp
    then show ?thesis using Z Cons decimal_not_x[of d] by auto
  qed
  have tw: "takeWhile (isRadixDigit 10) Z = Z"
    using digits by (simp add: takeWhile_eq_all_conv)
  have dw: "dropWhile isWhiteSpace Z = Z"
    using c Z decimal_not_space by simp
  have sign: "(case Z of c # _ \<Rightarrow> if c = CHR ''-'' then - 1 else 1 | [] \<Rightarrow> (1 :: rat)) = 1"
    using Z decimal_not_sign[OF c] by simp
  have rest: "(case Z of c # cs \<Rightarrow> if c = CHR ''+'' \<or> c = CHR ''-'' then cs else Z | [] \<Rightarrow> Z) = Z"
    using Z decimal_not_sign[OF c] by simp
  show "parseInt Z = Num (of_nat (mathInt 10 Z))"
    unfolding parseInt_def Let_def dw sign rest
    using nohex nonempty by (simp add: tw)
  have dw': "dropWhile isWhiteSpace (CHR ''-'' # Z) = CHR ''-'' # Z"
    by (simp add: isWhiteSpace_def)
  show "parseInt (CHR ''-'' # Z) = Num (- of_nat (mathInt 10 Z))"
    unfolding parseInt_def Let_def dw'
    using nohex nonempty by (simp add: tw)
qed

lemma parseInt_natToString:
  "parseInt (natToString n) = Num (of_nat n)"
  "parseInt (CHR ''-'' # natToString n) = Num (- of_nat n)"
  using parseInt_decimal[of "natToString n"]
  by (simp_all add: natToString_nonempty natToString_digits mathInt_natToString)

lemma parseInt_toString: "parseInt (toString i) = Num (of_int i)"
  by (simp add: toString_def parseInt_natToString)


lemma parseInt_empty: "parseInt [] = NaN"
  by (simp add: parseInt_def)

lemmas eval_toString = toString_def natToString_small natToString_large digitChar_def

lemmas eval_parseInt =
  parseInt_def isWhiteSpace_def isRadixDigit_def digitValue_def mathInt_def Let_def

subsection \<open>The paths of the effect\<close>

lemma keys_distinct: "lastShownKey f \<noteq> dismissedKey f"
  by (simp add: lastShownKey_def dismissedKey_def)

lemma useEffect_denied:
  "denied (localStorage w) \<Longrightarrow> useEffect p w = Threw SecurityError w"
  by (simp add: useEffect_def getItem_def)

lemma useEffect_dismissed:
  assumes "\<not> denied (localStorage w)"
    and "items (localStorage w) (dismissedKey (featureId p)) = Some v" and "v \<noteq> []"
  shows "useEffect p w = Returned Undefined w"
  using assms by (simp add: useEffect_def getItem_def)

lemma useEffect_first:
  assumes "\<not> denied (localStorage w)"
    and "\<not> truthy (items (localStorage w) (dismissedKey (featureId p)))"
    and "\<not> truthy (items (localStorage w) (lastShownKey (featureId p)))"
  shows "useEffect p w =
    (if full (localStorage w) then Threw QuotaExceededError (setTimeout ShowPopup 2000 w)
     else Returned Undefined (w\<lparr>timers := timers w @ [(clock w + 2000, ShowPopup)],
            localStorage := (localStorage w)\<lparr>items :=
              (items (localStorage w))(lastShownKey (featureId p) \<mapsto> toString (clock w))\<rparr>\<rparr>))"
  using assms by (simp add: useEffect_def getItem_def setItem_def setTimeout_def Let_def)

lemma useEffect_again:
  assumes "\<not> denied (localStorage w)"
    and "\<not> truthy (items (localStorage w) (dismissedKey (featureId p)))"
    and "items (localStorage w) (lastShownKey (featureId p)) = Some ls" and "ls \<noteq> []"
  shows "useEffect p w =
    (if js_lt (daysSince (clock w) (parseInt ls)) (showDays_of p)
     then Returned Undefined (w\<lparr>timers := timers w @ [(clock w + 2000, ShowPopup)]\<rparr>)
     else Returned Undefined w)"
  using assms by (simp add: useEffect_def getItem_def setTimeout_def Let_def)

lemma mounted_run_callback: "mounted (run_callback cb w) = mounted w"
  by (cases cb) (simp_all add: setTimeout_def setIsVisible_def setIsAnimating_def)

lemma mounted_fire_next: "mounted (fire_next w) = mounted w"
  by (simp add: fire_next_def mounted_run_callback split: option.splits)

subsection \<open>Permanent dismissal\<close>

text \<open>
  C1. Whatever the feature, the clock and the rest of the storage (so whatever
  \<open>lastShownAt\<close> holds): if the dismissed entry of the feature is \<open>"true"\<close>, the effect
  returns without scheduling or writing anything. On a fresh mount the component then
  renders \<open>null\<close>, no timer is pending, and the passing of time changes nothing.
\<close>

theorem C1_dismissed_never_shown:
  assumes "\<not> denied s"
    and "items s (dismissedKey (featureId p)) = Some ''true''"
  shows "useEffect p (initial now s) = Returned Undefined (initial now s)
       \<and> render (initial now s) = None
       \<and> timers (initial now s) = []
       \<and> fire_next (initial now s) = initial now s
       \<and> (\<forall>w. localStorage w = s \<longrightarrow> useEffect p w = Returned Undefined w)"
proof -
  have "useEffect p w = Returned Undefined w" if "localStorage w = s" for w
    using that assms by (intro useEffect_dismissed[where v = "''true''"]) simp_all
  moreover have "localStorage (initial now s) = s"
    by (simp add: initial_def)
  moreover have "render (initial now s) = None" "timers (initial now s) = []"
    by (simp_all add: initial_def render_def)
  moreover have "fire_next (initial now s) = initial now s"
    by (simp add: initial_def fire_next_def)
  ultimately show ?thesis by blast
qed

theorem C1_dismissed_never_shown_witness:
  "useEffect propsX
     (initial 5000 (storeOf [(''popup_x_dismissed'', ''true''), (''popup_x_lastShown'', ''1000'')]))
   = Returned Undefined (initial 5000 (storeOf [(''popup_x_dismissed'', ''true''), (''popup_x_lastShown'', ''1000'')]))
   \<and> render (initial 5000 (storeOf [(''popup_x_dismissed'', ''true''), (''popup_x_lastShown'', ''1000'')])) = None"
proof -
  let ?s = "storeOf [(''popup_x_dismissed'', ''true''), (''popup_x_lastShown'', ''1000'')]"
  have h1: "\<not> denied ?s"
    by (simp add: storeOf_def)
  have h2: "items ?s (dismissedKey (featureId propsX)) = Some ''true''"
    by (simp add: storeOf_def dismissedKey_def propsX_def)
  show ?thesis
    using C1_dismissed_never_shown[OF h1 h2, of 5000] by simp
qed

text \<open>
  C10. The test is \<open>if (dismissed)\<close>: any non-empty string under the dismissed key
  suppresses the popup exactly as \<open>"true"\<close> does, \<open>"false"\<close> and \<open>"0"\<close> included.
\<close>

theorem C10_dismissed_is_truthiness:
  assumes "\<not> denied s"
    and "items s (dismissedKey (featureId p)) = Some v" and "v \<noteq> []"
  shows "useEffect p (initial now s) = Returned Undefined (initial now s)
       \<and> render (initial now s) = None
       \<and> timers (initial now s) = []
       \<and> (\<forall>w. localStorage w = s \<longrightarrow> useEffect p w = Returned Undefined w)"
proof -
  have "useEffect p w = Returned Undefined w" if "localStorage w = s" for w
    using that assms by (intro useEffect_dismissed[where v = v]) simp_all
  moreover have "localStorage (initial now s) = s"
    by (simp add: initial_def)
  moreover have "render (initial now s) = None" "timers (initial now s) = []"
    by (simp_all add: initial_def render_def)
  ultimately show ?thesis by blast
qed

theorem C10_dismissed_is_truthiness_witness:
  "useEffect propsX (initial 5000 (storeOf [(''popup_x_dismissed'', ''false'')]))
   = Returned Undefined (initial 5000 (storeOf [(''popup_x_dismissed'', ''false'')]))
   \<and> useEffect propsX (initial 5000 (storeOf [(''popup_x_dismissed'', ''0'')]))
   = Returned Undefined (initial 5000 (storeOf [(''popup_x_dismissed'', ''0'')]))"
proof -
  let ?s = "storeOf [(''popup_x_dismissed'', ''false'')]"
  let ?t = "storeOf [(''popup_x_dismissed'', ''0'')]"
  have s1: "\<not> denied ?s" and t1: "\<not> denied ?t"
    by (simp_all add: storeOf_def)
  have s2: "items ?s (dismissedKey (featureId propsX)) = Some ''false''"
    and t2: "items ?t (dismissedKey (featureId propsX)) = Some ''0''"
    by (simp_all add: storeOf_def dismissedKey_def propsX_def)
  have s3: "''false'' \<noteq> []" and t3: "''0'' \<noteq> []"
    by simp_all
  show ?thesis
    using C10_dismissed_is_truthiness[OF s1 s2 s3, of 5000]
      C10_dismissed_is_truthiness[OF t1 t2 t3, of 5000]
    by simp
qed

subsection \<open>The decision when the popup has been shown before\<close>

lemma fire_show:
  "fire_next ((initial now s)\<lparr>timers := [(now + 2000, ShowPopup)]\<rparr>) =
   (initial (now + 2000) s)\<lparr>isVisible := True, timers := [(now + 2100, StartAnimation)]\<rparr>"
  by (simp add: fire_next_def initial_def setTimeout_def setIsVisible_def)

text \<open>
  C2. With no dismissed entry and a \<open>lastShownAt\<close> entry from which \<open>parseInt\<close> reads
  the number \<open>l\<close>, the effect computes the elapsed days as \<open>(now - l) / 86400000\<close>. If
  that is below \<open>showDays\<close> it schedules the show 2000 ms after the mount and leaves the
  storage as it is; when the timer fires the popup is visible. If the elapsed days are
  \<open>showDays\<close> or more it schedules nothing and changes nothing. The statement is for a
  whole number \<open>d\<close> of \<open>showDays\<close> and for time stamps and a difference below 2^53 in
  magnitude, where the subtraction of line 49 is exact and its rounded quotient compares
  with \<open>d\<close> as the exact quotient does.
\<close>

theorem C2_shown_before:
  assumes "\<not> denied s"
    and "items s (dismissedKey (featureId p)) = None"
    and "items s (lastShownKey (featureId p)) = Some ls"
    and "parseInt ls = Num (of_int l)"
    and "showDays_of p = Num (of_int d)"
    and "\<bar>now\<bar> < 9007199254740992"
    and "\<bar>l\<bar> < 9007199254740992"
    and "\<bar>now - l\<bar> < 9007199254740992"
  shows "daysSince now (parseInt ls) = Num (of_int (now - l) / (1000 * 60 * 60 * 24))
       \<and> (of_int (now - l) / (1000 * 60 * 60 * 24) < (of_int d :: rat) \<longrightarrow>
            useEffect p (initial now s) =
              Returned Undefined ((initial now s)\<lparr>timers := [(now + 2000, ShowPopup)]\<rparr>)
          \<and> localStorage (after_effect (useEffect p (initial now s))) = s
          \<and> fire_next (after_effect (useEffect p (initial now s))) =
              (initial (now + 2000) s)\<lparr>isVisible := True, timers := [(now + 2100, StartAnimation)]\<rparr>)
       \<and> ((of_int d :: rat) \<le> of_int (now - l) / (1000 * 60 * 60 * 24) \<longrightarrow>
            useEffect p (initial now s) = Returned Undefined (initial now s))"
proof -
  have ls: "ls \<noteq> []"
    using assms(4) parseInt_empty by auto
  have days: "daysSince now (parseInt ls) = Num (of_int (now - l) / (1000 * 60 * 60 * 24))"
    using assms(4) by (simp add: msPerDay_def)
  have eff: "useEffect p (initial now s) =
    (if of_int (now - l) / (1000 * 60 * 60 * 24) < (of_int d :: rat)
     then Returned Undefined ((initial now s)\<lparr>timers := [(now + 2000, ShowPopup)]\<rparr>)
     else Returned Undefined (initial now s))"
    using useEffect_again[of "initial now s" p ls] assms(1-5) ls
    by (simp add: initial_def msPerDay_def)
  show ?thesis
    using days eff fire_show[of now s] by (simp add: initial_def)
qed

theorem C2_shown_before_witness:
  "useEffect propsX (initial 86401000 (storeOf [(''popup_x_lastShown'', ''1000'')]))
     = Returned Undefined ((initial 86401000 (storeOf [(''popup_x_lastShown'', ''1000'')]))
                   \<lparr>timers := [(86403000, ShowPopup)]\<rparr>)
   \<and> useEffect propsX (initial 604801000 (storeOf [(''popup_x_lastShown'', ''1000'')]))
     = Returned Undefined (initial 604801000 (storeOf [(''popup_x_lastShown'', ''1000'')]))"
proof -
  let ?s = "storeOf [(''popup_x_lastShown'', ''1000'')]"
  have h1: "\<not> denied ?s"
    by (simp add: storeOf_def)
  have h2: "items ?s (dismissedKey (featureId propsX)) = None"
    by (simp add: storeOf_def dismissedKey_def propsX_def)
  have h3: "items ?s (lastShownKey (featureId propsX)) = Some ''1000''"
    by (simp add: storeOf_def lastShownKey_def propsX_def)
  have h4: "parseInt ''1000'' = Num (of_int 1000)"
    by (simp add: eval_parseInt)
  have h5: "showDays_of propsX = Num (of_int 7)"
    by (simp add: showDays_of_def propsX_def)
  have l: "\<bar>1000 :: int\<bar> < 9007199254740992"
    by simp
  have inside: "\<bar>86401000 :: int\<bar> < 9007199254740992" "\<bar>86401000 - 1000 :: int\<bar> < 9007199254740992"
    and outside: "\<bar>604801000 :: int\<bar> < 9007199254740992" "\<bar>604801000 - 1000 :: int\<bar> < 9007199254740992"
    by simp_all
  show ?thesis
    using C2_shown_before[OF h1 h2 h3 h4 h5 inside(1) l inside(2)]
      C2_shown_before[OF h1 h2 h3 h4 h5 outside(1) l outside(2)]
    by simp
qed




subsection \<open>The first load\<close>

text \<open>
  C5, as the code has it. With no dismissed entry and no \<open>lastShownAt\<close> entry, the
  effect schedules the show 2000 ms after the mount and writes \<open>lastShownAt\<close> at once
  (line 47), with the time of the mount: the entry is in the storage while the popup is
  still invisible. When the timer fires, 2000 ms later, the popup becomes visible; the
  storage then holds the mount time under \<open>lastShown\<close>, which \<open>parseInt\<close> reads back, and
  no dismissed entry.
\<close>

theorem C5_first_load:
  assumes "\<not> denied s" and "\<not> full s"
    and "items s (dismissedKey (featureId p)) = None"
    and "items s (lastShownKey (featureId p)) = None"
  shows "useEffect p (initial now s) =
           Returned Undefined ((initial now s)
             \<lparr>timers := [(now + 2000, ShowPopup)],
              localStorage := s\<lparr>items := (items s)(lastShownKey (featureId p) \<mapsto> toString now)\<rparr>\<rparr>)
       \<and> isVisible (after_effect (useEffect p (initial now s))) = False
       \<and> isVisible (fire_next (after_effect (useEffect p (initial now s)))) = True
       \<and> clock (fire_next (after_effect (useEffect p (initial now s)))) = now + 2000
       \<and> items (localStorage (fire_next (after_effect (useEffect p (initial now s)))))
            (lastShownKey (featureId p)) = Some (toString now)
       \<and> parseInt (toString now) = Num (of_int now)
       \<and> items (localStorage (fire_next (after_effect (useEffect p (initial now s)))))
            (dismissedKey (featureId p)) = None"
proof -
  let ?w = "(initial now s)
             \<lparr>timers := [(now + 2000, ShowPopup)],
              localStorage := s\<lparr>items := (items s)(lastShownKey (featureId p) \<mapsto> toString now)\<rparr>\<rparr>"
  have eff: "useEffect p (initial now s) = Returned Undefined ?w"
    using useEffect_first[of "initial now s" p] assms by (simp add: initial_def)
  have fired: "fire_next ?w =
      ?w\<lparr>clock := now + 2000, isVisible := True, timers := [(now + 2100, StartAnimation)]\<rparr>"
    by (simp add: fire_next_def initial_def setTimeout_def setIsVisible_def)
  have other: "dismissedKey (featureId p) \<noteq> lastShownKey (featureId p)"
    using keys_distinct[of "featureId p"] by simp
  show ?thesis
    unfolding eff after_effect.simps fired
    using assms(3) other by (simp add: initial_def parseInt_toString)
qed

theorem C5_first_load_witness:
  "useEffect propsX (initial 1000 (storeOf [])) =
     Returned Undefined ((initial 1000 (storeOf []))
       \<lparr>timers := [(3000, ShowPopup)],
        localStorage := (storeOf [])\<lparr>items := (items (storeOf []))(''popup_x_lastShown'' \<mapsto> ''1000'')\<rparr>\<rparr>)
   \<and> isVisible (fire_next (after_effect (useEffect propsX (initial 1000 (storeOf []))))) = True"
proof -
  have h1: "\<not> denied (storeOf [])" and h2: "\<not> full (storeOf [])"
    by (simp_all add: storeOf_def)
  have h3: "items (storeOf []) (dismissedKey (featureId propsX)) = None"
    and h4: "items (storeOf []) (lastShownKey (featureId propsX)) = None"
    by (simp_all add: storeOf_def)
  have k: "lastShownKey (featureId propsX) = ''popup_x_lastShown''"
    by (simp add: lastShownKey_def propsX_def)
  have t: "toString 1000 = ''1000''"
    by (simp add: eval_toString)
  note r = C5_first_load[OF h1 h2 h3 h4, of 1000]
  have a: "useEffect propsX (initial 1000 (storeOf [])) =
     Returned Undefined ((initial 1000 (storeOf []))
       \<lparr>timers := [(3000, ShowPopup)],
        localStorage := (storeOf [])\<lparr>items := (items (storeOf []))(''popup_x_lastShown'' \<mapsto> ''1000'')\<rparr>\<rparr>)"
    using r[THEN conjunct1] by (simp add: k t)
  have b: "isVisible (fire_next (after_effect (useEffect propsX (initial 1000 (storeOf []))))) = True"
    using r[THEN conjunct2, THEN conjunct2, THEN conjunct1] .
  show ?thesis
    using a b by (rule conjI)
qed

text \<open>
  The claim as it is written fails: mounted at time 1000 on empty storage, the effect has
  stored \<open>"1000"\<close> while the popup is not yet visible; the popup becomes visible at time
  3000, and the entry is still the mount time, not the render time.
\<close>

theorem C5_counterexample:
  "items (localStorage (after_effect (useEffect propsX (initial 1000 (storeOf [])))))
      (lastShownKey ''x'') = Some (toString 1000)
   \<and> isVisible (after_effect (useEffect propsX (initial 1000 (storeOf [])))) = False
   \<and> isVisible (fire_next (after_effect (useEffect propsX (initial 1000 (storeOf []))))) = True
   \<and> clock (fire_next (after_effect (useEffect propsX (initial 1000 (storeOf []))))) = 3000
   \<and> items (localStorage (fire_next (after_effect (useEffect propsX (initial 1000 (storeOf []))))))
      (lastShownKey ''x'') = Some (toString 1000)
   \<and> toString 1000 \<noteq> toString 3000"
proof -
  let ?w = "(initial 1000 (storeOf []))
       \<lparr>timers := [(3000, ShowPopup)],
        localStorage := (storeOf [])\<lparr>items := (items (storeOf []))(lastShownKey ''x'' \<mapsto> toString 1000)\<rparr>\<rparr>"
  have eff: "useEffect propsX (initial 1000 (storeOf [])) = Returned Undefined ?w"
    by (simp add: useEffect_def getItem_def setItem_def setTimeout_def storeOf_def initial_def
        propsX_def)
  have fired: "fire_next ?w =
      ?w\<lparr>clock := 3000, isVisible := True, timers := [(3100, StartAnimation)]\<rparr>"
    by (simp add: fire_next_def initial_def setTimeout_def setIsVisible_def)
  have differ: "toString 1000 \<noteq> toString 3000"
    by (simp add: eval_toString)
  show ?thesis
    unfolding eff after_effect.simps fired using differ by (simp add: initial_def)
qed

subsection \<open>A stored time stamp that is not a number\<close>

text \<open>
  C8, as the code has it. With no dismissed entry and a \<open>lastShownAt\<close> entry from which
  \<open>parseInt\<close> reads no number: only the empty string is falsy and takes the never-shown
  path (the show is scheduled and a fresh \<open>lastShownAt\<close> written). Every other such
  entry is truthy and takes the \<open>else\<close> branch of line 48, where the elapsed time is
  \<open>NaN\<close> and \<open>NaN < showDays\<close> is false: nothing is scheduled and nothing is written.
\<close>

theorem C8_malformed_time_stamp:
  assumes "\<not> denied s"
    and "items s (dismissedKey (featureId p)) = None"
    and "items s (lastShownKey (featureId p)) = Some ls"
    and "parseInt ls = NaN"
  shows "(ls \<noteq> [] \<longrightarrow> useEffect p (initial now s) = Returned Undefined (initial now s))
       \<and> (ls = [] \<and> \<not> full s \<longrightarrow>
            useEffect p (initial now s) =
              Returned Undefined ((initial now s)
                \<lparr>timers := [(now + 2000, ShowPopup)],
                 localStorage := s\<lparr>items := (items s)(lastShownKey (featureId p) \<mapsto> toString now)\<rparr>\<rparr>))"
proof (intro conjI impI)
  assume "ls \<noteq> []"
  then show "useEffect p (initial now s) = Returned Undefined (initial now s)"
    using useEffect_again[of "initial now s" p ls] assms by (simp add: initial_def)
next
  assume "ls = [] \<and> \<not> full s"
  then show "useEffect p (initial now s) =
      Returned Undefined ((initial now s)
        \<lparr>timers := [(now + 2000, ShowPopup)],
         localStorage := s\<lparr>items := (items s)(lastShownKey (featureId p) \<mapsto> toString now)\<rparr>\<rparr>)"
    using useEffect_first[of "initial now s" p] assms by (simp add: initial_def)
qed

theorem C8_malformed_time_stamp_witness:
  "useEffect propsX (initial 1000 (storeOf [(''popup_x_lastShown'', ''yesterday'')]))
     = Returned Undefined (initial 1000 (storeOf [(''popup_x_lastShown'', ''yesterday'')]))
   \<and> timers (after_effect (useEffect propsX (initial 1000 (storeOf [(''popup_x_lastShown'', [])]))))
     = [(3000, ShowPopup)]"
proof -
  let ?s = "storeOf [(''popup_x_lastShown'', ''yesterday'')]"
  let ?t = "storeOf [(''popup_x_lastShown'', [])]"
  have s1: "\<not> denied ?s" and t1: "\<not> denied ?t" and t0: "\<not> full ?t"
    by (simp_all add: storeOf_def)
  have s2: "items ?s (dismissedKey (featureId propsX)) = None"
    and t2: "items ?t (dismissedKey (featureId propsX)) = None"
    by (simp_all add: storeOf_def dismissedKey_def propsX_def)
  have s3: "items ?s (lastShownKey (featureId propsX)) = Some ''yesterday''"
    and t3: "items ?t (lastShownKey (featureId propsX)) = Some []"
    by (simp_all add: storeOf_def lastShownKey_def propsX_def)
  have s4: "parseInt ''yesterday'' = NaN" and t4: "parseInt [] = NaN"
    by (simp_all add: eval_parseInt)
  show ?thesis
    using C8_malformed_time_stamp[OF s1 s2 s3 s4, of 1000]
      C8_malformed_time_stamp[OF t1 t2 t3 t4, of 1000] t0
    by simp
qed

text \<open>
  The claim as it is written fails on the entry \<open>"abc"\<close>: it is not treated as absent.
  On absent \<open>lastShownAt\<close> the effect schedules the show and writes the entry; on \<open>"abc"\<close>
  it schedules nothing and leaves \<open>"abc"\<close> in place.
\<close>

theorem C8_counterexample:
  "parseInt ''abc'' = NaN
   \<and> timers (after_effect (useEffect propsX (initial 1000 (storeOf [])))) = [(3000, ShowPopup)]
   \<and> timers (after_effect (useEffect propsX (initial 1000 (storeOf [(''popup_x_lastShown'', ''abc'')])))) = []
   \<and> items (localStorage (after_effect (useEffect propsX
        (initial 1000 (storeOf [(''popup_x_lastShown'', ''abc'')]))))) (lastShownKey ''x'') = Some ''abc''"
proof -
  have nan: "parseInt ''abc'' = NaN"
    by (simp add: eval_parseInt)
  have absent: "timers (after_effect (useEffect propsX (initial 1000 (storeOf [])))) = [(3000, ShowPopup)]"
    by (simp add: useEffect_def getItem_def setItem_def setTimeout_def storeOf_def initial_def
        propsX_def)
  have abc: "useEffect propsX (initial 1000 (storeOf [(''popup_x_lastShown'', ''abc'')]))
      = Returned Undefined (initial 1000 (storeOf [(''popup_x_lastShown'', ''abc'')]))"
    by (simp add: useEffect_def getItem_def storeOf_def initial_def propsX_def
        lastShownKey_def dismissedKey_def nan)
  show ?thesis
    unfolding abc after_effect.simps using nan absent
    by (simp add: initial_def storeOf_def lastShownKey_def)
qed

subsection \<open>Storage that refuses\<close>

text \<open>
  C4, as the code has it. No access to \<open>localStorage\<close> stands inside a \<open>try\<close>, so a
  failing access is thrown out of the function that made it. With storage disabled the
  effect throws at its first read, before it has scheduled or written anything, and the
  dismiss handler throws at its write, before it has hidden anything. With the quota
  used up, a first load throws at the write of \<open>lastShownAt\<close>, after line 43 has set the
  timer, and the dismiss handler throws at its write. Whenever the effect throws, the
  popup is not on the screen afterwards, nor when the next timer is due: not because
  the failure was ignored, but because React takes down the component whose effect
  threw.
\<close>

theorem C4_storage_failure_is_thrown:
  "(denied (localStorage w) \<longrightarrow>
      useEffect p w = Threw SecurityError w \<and> handleDismiss p w = Threw SecurityError w)
   \<and> (\<not> denied (localStorage w) \<and> full (localStorage w)
        \<and> \<not> truthy (items (localStorage w) (dismissedKey (featureId p)))
        \<and> \<not> truthy (items (localStorage w) (lastShownKey (featureId p))) \<longrightarrow>
      useEffect p w = Threw QuotaExceededError (setTimeout ShowPopup 2000 w))
   \<and> (\<not> denied (localStorage w) \<and> full (localStorage w) \<longrightarrow>
      handleDismiss p w = Threw QuotaExceededError w)
   \<and> (\<forall>e w'. useEffect p w = Threw e w' \<longrightarrow>
        on_screen (after_effect (useEffect p w)) = False
      \<and> on_screen (fire_next (after_effect (useEffect p w))) = False)"
proof (intro conjI impI allI)
  assume "denied (localStorage w)"
  then show "useEffect p w = Threw SecurityError w"
    by (rule useEffect_denied)
next
  assume "denied (localStorage w)"
  then show "handleDismiss p w = Threw SecurityError w"
    by (simp add: handleDismiss_def setItem_def)
next
  assume "\<not> denied (localStorage w) \<and> full (localStorage w)
        \<and> \<not> truthy (items (localStorage w) (dismissedKey (featureId p)))
        \<and> \<not> truthy (items (localStorage w) (lastShownKey (featureId p)))"
  then show "useEffect p w = Threw QuotaExceededError (setTimeout ShowPopup 2000 w)"
    using useEffect_first[of w p] by simp
next
  assume "\<not> denied (localStorage w) \<and> full (localStorage w)"
  then show "handleDismiss p w = Threw QuotaExceededError w"
    by (simp add: handleDismiss_def setItem_def)
next
  fix e w'
  assume "useEffect p w = Threw e w'"
  then have down: "\<not> mounted (after_effect (useEffect p w))"
    by (simp add: unmount_def)
  then show "on_screen (after_effect (useEffect p w)) = False"
    by (simp add: on_screen_def)
  from down show "on_screen (fire_next (after_effect (useEffect p w))) = False"
    by (simp add: on_screen_def mounted_fire_next)
qed

theorem C4_storage_failure_is_thrown_witness:
  "useEffect propsX (initial 1000 ((storeOf [])\<lparr>denied := True\<rparr>))
     = Threw SecurityError (initial 1000 ((storeOf [])\<lparr>denied := True\<rparr>))
   \<and> useEffect propsX (initial 1000 ((storeOf [])\<lparr>full := True\<rparr>))
     = Threw QuotaExceededError (setTimeout ShowPopup 2000 (initial 1000 ((storeOf [])\<lparr>full := True\<rparr>)))
   \<and> handleDismiss propsX (initial 1000 ((storeOf [])\<lparr>full := True\<rparr>))
     = Threw QuotaExceededError (initial 1000 ((storeOf [])\<lparr>full := True\<rparr>))
   \<and> on_screen (fire_next (after_effect (useEffect propsX (initial 1000 ((storeOf [])\<lparr>full := True\<rparr>)))))
     = False"
proof -
  let ?d = "initial 1000 ((storeOf [])\<lparr>denied := True\<rparr>)"
  let ?f = "initial 1000 ((storeOf [])\<lparr>full := True\<rparr>)"
  have d: "denied (localStorage ?d)"
    by (simp add: initial_def)
  have f: "\<not> denied (localStorage ?f) \<and> full (localStorage ?f)"
    by (simp add: initial_def storeOf_def)
  have g: "\<not> truthy (items (localStorage ?f) (dismissedKey (featureId propsX)))
         \<and> \<not> truthy (items (localStorage ?f) (lastShownKey (featureId propsX)))"
    by (simp add: initial_def storeOf_def)
  show ?thesis
    using C4_storage_failure_is_thrown[of ?d propsX] C4_storage_failure_is_thrown[of ?f propsX] d f g
    by blast
qed

text \<open>
  The claim as it is written fails: with storage disabled the effect throws, and with
  the quota used up on a first load it throws as well.
\<close>

theorem C4_counterexample:
  "useEffect propsX (initial 1000 ((storeOf [])\<lparr>denied := True\<rparr>))
     = Threw SecurityError (initial 1000 ((storeOf [])\<lparr>denied := True\<rparr>))
   \<and> useEffect propsX (initial 1000 ((storeOf [])\<lparr>full := True\<rparr>))
     = Threw QuotaExceededError
         ((initial 1000 ((storeOf [])\<lparr>full := True\<rparr>))\<lparr>timers := [(3000, ShowPopup)]\<rparr>)"
proof -
  have d: "useEffect propsX (initial 1000 ((storeOf [])\<lparr>denied := True\<rparr>))
     = Threw SecurityError (initial 1000 ((storeOf [])\<lparr>denied := True\<rparr>))"
    by (simp add: useEffect_def getItem_def initial_def)
  have f: "useEffect propsX (initial 1000 ((storeOf [])\<lparr>full := True\<rparr>))
     = Threw QuotaExceededError
         ((initial 1000 ((storeOf [])\<lparr>full := True\<rparr>))\<lparr>timers := [(3000, ShowPopup)]\<rparr>)"
    by (simp add: useEffect_def getItem_def setItem_def setTimeout_def initial_def storeOf_def)
  show ?thesis
    using d f by (rule conjI)
qed

subsection \<open>The click handlers\<close>

text \<open>
  C6. On a mounted component with working storage, \<open>handleDismiss\<close> writes \<open>"true"\<close>
  under the dismissed key, switches the animation off and schedules the hiding 400 ms
  later, after which the component renders \<open>null\<close>. A second click leaves the storage
  exactly as the first one did. Every later mount on that storage shows nothing.
\<close>

theorem C6_dismiss:
  assumes "\<not> denied (localStorage w)" and "\<not> full (localStorage w)" and "mounted w"
  shows "handleDismiss p w =
           Returned Undefined (w\<lparr>localStorage := (localStorage w)
                         \<lparr>items := (items (localStorage w))(dismissedKey (featureId p) \<mapsto> ''true'')\<rparr>,
                       isAnimating := False,
                       timers := timers w @ [(clock w + 400, HidePopup)]\<rparr>)
       \<and> items (localStorage (after_click (handleDismiss p w))) (dismissedKey (featureId p)) = Some ''true''
       \<and> isAnimating (after_click (handleDismiss p w)) = False
       \<and> render (run_callback HidePopup (after_click (handleDismiss p w))) = None
       \<and> localStorage (after_click (handleDismiss p (after_click (handleDismiss p w))))
           = localStorage (after_click (handleDismiss p w))
       \<and> useEffect p (initial t (localStorage (after_click (handleDismiss p w))))
           = Returned Undefined (initial t (localStorage (after_click (handleDismiss p w))))"
proof -
  let ?s = "(localStorage w)\<lparr>items := (items (localStorage w))(dismissedKey (featureId p) \<mapsto> ''true'')\<rparr>"
  let ?w = "w\<lparr>localStorage := ?s, isAnimating := False,
              timers := timers w @ [(clock w + 400, HidePopup)]\<rparr>"
  have once: "handleDismiss p w = Returned Undefined ?w"
    using assms by (simp add: handleDismiss_def setItem_def setTimeout_def setIsAnimating_def)
  have twice: "handleDismiss p ?w =
      Returned Undefined (?w\<lparr>timers := timers ?w @ [(clock w + 400, HidePopup)]\<rparr>)"
    using assms by (simp add: handleDismiss_def setItem_def setTimeout_def setIsAnimating_def)
  have later: "useEffect p (initial t ?s) = Returned Undefined (initial t ?s)"
    using assms(1) by (intro useEffect_dismissed[where v = "''true''"]) (simp_all add: initial_def)
  show ?thesis
    unfolding once twice after_click.simps
    using assms(3) later by (simp add: render_def setIsVisible_def)
qed

theorem C6_dismiss_witness:
  "items (localStorage (after_click (handleDismiss propsX
      ((initial 3100 (storeOf [(''popup_x_lastShown'', ''1000'')]))\<lparr>isVisible := True, isAnimating := True\<rparr>))))
      ''popup_x_dismissed'' = Some ''true''
   \<and> localStorage (after_click (handleDismiss propsX (after_click (handleDismiss propsX
      ((initial 3100 (storeOf [(''popup_x_lastShown'', ''1000'')]))\<lparr>isVisible := True, isAnimating := True\<rparr>)))))
     = localStorage (after_click (handleDismiss propsX
      ((initial 3100 (storeOf [(''popup_x_lastShown'', ''1000'')]))\<lparr>isVisible := True, isAnimating := True\<rparr>)))"
proof -
  let ?w = "(initial 3100 (storeOf [(''popup_x_lastShown'', ''1000'')]))\<lparr>isVisible := True, isAnimating := True\<rparr>"
  have h1: "\<not> denied (localStorage ?w)" and h2: "\<not> full (localStorage ?w)" and h3: "mounted ?w"
    by (simp_all add: initial_def storeOf_def)
  have k: "dismissedKey (featureId propsX) = ''popup_x_dismissed''"
    by (simp add: dismissedKey_def propsX_def)
  note r = C6_dismiss[OF h1 h2 h3, of propsX]
  have a: "items (localStorage (after_click (handleDismiss propsX ?w))) ''popup_x_dismissed'' = Some ''true''"
    using r[THEN conjunct2, THEN conjunct1] by (simp add: k)
  have b: "localStorage (after_click (handleDismiss propsX (after_click (handleDismiss propsX ?w))))
     = localStorage (after_click (handleDismiss propsX ?w))"
    using r[THEN conjunct2, THEN conjunct2, THEN conjunct2, THEN conjunct2, THEN conjunct1] .
  show ?thesis
    using a b by (rule conjI)
qed

text \<open>
  C7. \<open>handleClose\<close> and \<open>handleNavigate\<close> leave the storage as it is: neither the dismissed
  entry nor \<open>lastShownAt\<close> is written. Both switch the animation off and schedule the
  hiding 400 ms later, after which the component renders \<open>null\<close>; \<open>handleNavigate\<close>
  pushes \<open>linkUrl\<close> on the history first. A later mount decides as if the click had not
  happened, so the popup can come back.
\<close>

theorem C7_close_and_navigate:
  assumes "mounted w"
  shows "localStorage (handleClose w) = localStorage w
       \<and> localStorage (handleNavigate p w) = localStorage w
       \<and> history (handleClose w) = history w
       \<and> history (handleNavigate p w) = history w @ [linkUrl p]
       \<and> isAnimating (handleClose w) = False
       \<and> isAnimating (handleNavigate p w) = False
       \<and> timers (handleClose w) = timers w @ [(clock w + 400, HidePopup)]
       \<and> timers (handleNavigate p w) = timers w @ [(clock w + 400, HidePopup)]
       \<and> render (run_callback HidePopup (handleClose w)) = None
       \<and> render (run_callback HidePopup (handleNavigate p w)) = None
       \<and> useEffect p (initial t (localStorage (handleClose w))) = useEffect p (initial t (localStorage w))
       \<and> useEffect p (initial t (localStorage (handleNavigate p w))) = useEffect p (initial t (localStorage w))"
  using assms
  by (simp add: handleClose_def handleNavigate_def setTimeout_def setIsAnimating_def
      setIsVisible_def render_def)

theorem C7_close_and_navigate_witness:
  "localStorage (handleClose
      ((initial 3100 (storeOf [(''popup_x_lastShown'', ''1000'')]))\<lparr>isVisible := True, isAnimating := True\<rparr>))
     = storeOf [(''popup_x_lastShown'', ''1000'')]
   \<and> localStorage (handleNavigate propsX
      ((initial 3100 (storeOf [(''popup_x_lastShown'', ''1000'')]))\<lparr>isVisible := True, isAnimating := True\<rparr>))
     = storeOf [(''popup_x_lastShown'', ''1000'')]"
proof -
  let ?w = "(initial 3100 (storeOf [(''popup_x_lastShown'', ''1000'')]))\<lparr>isVisible := True, isAnimating := True\<rparr>"
  have h: "mounted ?w"
    by (simp add: initial_def)
  have s: "localStorage ?w = storeOf [(''popup_x_lastShown'', ''1000'')]"
    by (simp add: initial_def)
  note r = C7_close_and_navigate[OF h, of propsX]
  have a: "localStorage (handleClose ?w) = storeOf [(''popup_x_lastShown'', ''1000'')]"
    using r[THEN conjunct1] s by simp
  have b: "localStorage (handleNavigate propsX ?w) = storeOf [(''popup_x_lastShown'', ''1000'')]"
    using r[THEN conjunct2, THEN conjunct1] s by simp
  show ?thesis
    using a b by (rule conjI)
qed

subsection \<open>Unmounting\<close>

lemma useEffect_returns_undefined: "useEffect p w = Returned rv w' \<Longrightarrow> rv = Undefined"
  by (auto simp add: useEffect_def Let_def split: sum.splits if_splits)

lemma useEffect_fresh_timers:
  assumes "useEffect p (initial now s) = Returned rv w'"
  shows "timers w' = [] \<or> timers w' = [(now + 2000, ShowPopup)]"
  using assms
  by (auto simp add: useEffect_def Let_def getItem_def setItem_def setTimeout_def initial_def
      split: sum.splits if_splits)

lemma fire_next_show_unmounted:
  assumes "\<not> mounted w" and "next_timer (timers w) = Some (t, ShowPopup)"
  shows "fire_next w =
    w\<lparr>clock := max (clock w) t,
      timers := remove1 (t, ShowPopup) (timers w) @ [(max (clock w) t + 100, StartAnimation)]\<rparr>"
  using assms by (simp add: fire_next_def setTimeout_def setIsVisible_def)

text \<open>
  C9, as the code has it. Whenever the effect returns, the value it returns is
  \<open>undefined\<close>, not a clean-up, and nothing in the file calls \<open>clearTimeout\<close>. So
  unmounting cancels nothing: the timer queue after the unmount is the queue the effect
  left, which on a fresh mount is empty or holds the show callback, due 2000 ms after
  the mount. A show callback that is pending then still runs when it is due: the clock
  is at its due time, the callback is gone from the queue, and the animation timer it
  sets is in the queue, 100 ms later. What keeps the popup off the screen is React
  alone: the state update of an unmounted component is dropped, \<open>isVisible\<close> stays as it
  was, and an unmounted component displays nothing.
\<close>

theorem C9_unmount_cancels_nothing:
  assumes "useEffect p w = Returned rv w'"
  shows "rv = Undefined
       \<and> timers (unmount rv w') = timers w'
       \<and> on_screen (unmount rv w') = False
       \<and> (\<forall>now s. w = initial now s \<longrightarrow>
            timers w' = [] \<or> timers w' = [(now + 2000, ShowPopup)])
       \<and> (\<forall>t. next_timer (timers w') = Some (t, ShowPopup) \<longrightarrow>
            clock (fire_next (unmount rv w')) = max (clock w') t
          \<and> timers (fire_next (unmount rv w')) =
              remove1 (t, ShowPopup) (timers w') @ [(max (clock w') t + 100, StartAnimation)]
          \<and> isVisible (fire_next (unmount rv w')) = isVisible w'
          \<and> on_screen (fire_next (unmount rv w')) = False)"
proof -
  have rv: "rv = Undefined"
    using assms by (rule useEffect_returns_undefined)
  have un: "unmount Undefined w' = w'\<lparr>mounted := False\<rparr>"
    by (simp add: unmount_def)
  have fired: "fire_next (w'\<lparr>mounted := False\<rparr>) =
      w'\<lparr>mounted := False, clock := max (clock w') t,
        timers := remove1 (t, ShowPopup) (timers w') @ [(max (clock w') t + 100, StartAnimation)]\<rparr>"
    if "next_timer (timers w') = Some (t, ShowPopup)" for t
    using fire_next_show_unmounted[of "w'\<lparr>mounted := False\<rparr>" t] that by simp
  have fresh: "timers w' = [] \<or> timers w' = [(now + 2000, ShowPopup)]"
    if "w = initial now s" for now s
    using useEffect_fresh_timers[of p now s rv w'] assms that by simp
  have "timers (unmount Undefined w') = timers w'"
    and "on_screen (unmount Undefined w') = False"
    by (simp_all add: un on_screen_def)
  moreover have "clock (fire_next (unmount Undefined w')) = max (clock w') t
      \<and> timers (fire_next (unmount Undefined w')) =
          remove1 (t, ShowPopup) (timers w') @ [(max (clock w') t + 100, StartAnimation)]
      \<and> isVisible (fire_next (unmount Undefined w')) = isVisible w'
      \<and> on_screen (fire_next (unmount Undefined w')) = False"
    if "next_timer (timers w') = Some (t, ShowPopup)" for t
    unfolding un by (simp add: fired[OF that] on_screen_def)
  ultimately show ?thesis
    unfolding rv using fresh by blast
qed

theorem C9_unmount_cancels_nothing_witness:
  "timers (unmount Undefined
      ((initial 86401000 (storeOf [(''popup_x_lastShown'', ''1000'')]))\<lparr>timers := [(86403000, ShowPopup)]\<rparr>))
     = [(86403000, ShowPopup)]
   \<and> timers (fire_next (unmount Undefined
      ((initial 86401000 (storeOf [(''popup_x_lastShown'', ''1000'')]))\<lparr>timers := [(86403000, ShowPopup)]\<rparr>)))
     = [(86403100, StartAnimation)]
   \<and> isVisible (fire_next (unmount Undefined
      ((initial 86401000 (storeOf [(''popup_x_lastShown'', ''1000'')]))\<lparr>timers := [(86403000, ShowPopup)]\<rparr>)))
     = False"
proof -
  let ?w = "initial 86401000 (storeOf [(''popup_x_lastShown'', ''1000'')])"
  let ?w' = "?w\<lparr>timers := [(86403000, ShowPopup)]\<rparr>"
  have p: "parseInt ''1000'' = Num 1000"
    by (simp add: eval_parseInt)
  have eff: "useEffect propsX ?w = Returned Undefined ?w'"
    by (simp add: useEffect_def getItem_def setTimeout_def storeOf_def initial_def propsX_def
        lastShownKey_def dismissedKey_def showDays_of_def p msPerDay_def)
  have next_due: "next_timer (timers ?w') = Some (86403000, ShowPopup)"
    by simp
  note r = C9_unmount_cancels_nothing[OF eff]
  have a: "timers (unmount Undefined ?w') = [(86403000, ShowPopup)]"
    using r[THEN conjunct2, THEN conjunct1] by simp
  have b: "timers (fire_next (unmount Undefined ?w')) = [(86403100, StartAnimation)]"
    using r[THEN conjunct2, THEN conjunct2, THEN conjunct2, THEN conjunct2, THEN spec, THEN mp,
        OF next_due, THEN conjunct2, THEN conjunct1]
    by (simp add: initial_def)
  have c: "isVisible (fire_next (unmount Undefined ?w')) = False"
    using r[THEN conjunct2, THEN conjunct2, THEN conjunct2, THEN conjunct2, THEN spec, THEN mp,
        OF next_due, THEN conjunct2, THEN conjunct2, THEN conjunct1]
    by (simp add: initial_def)
  show ?thesis
    using a b c by (intro conjI)
qed

text \<open>
  The claim as it is written fails: mounted at time 1000 on empty storage, the effect
  returns \<open>undefined\<close>; unmounted with that, the component still has its show callback
  pending for time 3000, and the callback runs then, setting the animation timer for
  time 3100.
\<close>

theorem C9_counterexample:
  "useEffect propsX (initial 1000 (storeOf [])) =
     Returned Undefined (after_effect (useEffect propsX (initial 1000 (storeOf []))))
   \<and> timers (unmount Undefined (after_effect (useEffect propsX (initial 1000 (storeOf []))))) =
       [(3000, ShowPopup)]
   \<and> timers (fire_next (unmount Undefined (after_effect (useEffect propsX (initial 1000 (storeOf [])))))) =
       [(3100, StartAnimation)]
   \<and> clock (fire_next (unmount Undefined (after_effect (useEffect propsX (initial 1000 (storeOf [])))))) =
       3000"
  by (simp add: useEffect_def getItem_def setItem_def setTimeout_def storeOf_def initial_def
      propsX_def unmount_def fire_next_def setIsVisible_def)

end
